theory Spec2Isabelle
  imports Main "HOL-Library.Finite_Map"
begin

section \<open>Python values\<close>

text \<open>
  A Python \<^verbatim>\<open>str\<close> is a sequence of Unicode code points; it is modelled as the list of
  these code points. \<open>py\<close> turns an ASCII literal of the source into that list.
\<close>

type_synonym pystr = "nat list"

definition py :: "string \<Rightarrow> pystr" where
  "py s = map of_char s"

definition nl :: pystr where
  "nl = [10]"

text \<open>
  The exceptions the source distinguishes in its \<^verbatim>\<open>except\<close> clauses, each carrying the
  text \<^verbatim>\<open>str(e)\<close>: \<^verbatim>\<open>google.genai.errors.APIError\<close>; \<^verbatim>\<open>ValueError\<close> with its subclasses
  (\<^verbatim>\<open>json.JSONDecodeError\<close> and pydantic's \<^verbatim>\<open>ValidationError\<close> among them); any other
  subclass of \<^verbatim>\<open>Exception\<close>, such as the errors of the network transport, which are not
  an \<^verbatim>\<open>APIError\<close>. What is not an \<^verbatim>\<open>Exception\<close> (a keyboard interrupt, an
  exit of the interpreter) is not modelled, and the calls inside the handlers,
  \<^verbatim>\<open>time.sleep\<close> and the messages, are taken not to raise.
\<close>

datatype exn = APIError pystr | ValueError pystr | Exception pystr

text \<open>The request sent to the model API.\<close>

record request =
  model :: pystr
  response_mime_type :: pystr
  system_instruction :: pystr
  user_text :: pystr

section \<open>The structured output schema (lines 14 to 24)\<close>

record Feedback =
  keywordMatch :: pystr
  contentImpact :: pystr
  formattingAndStructure :: pystr

record ATSResult =
  score :: int
  summary :: pystr
  feedback :: Feedback

section \<open>Effects\<close>

text \<open>
  What the program does to the outside, in the order it does it: the requests sent to the
  model API, the calls of \<^verbatim>\<open>time.sleep\<close>, the messages put on the page, the preview of
  the extracted text and the display of the report. A function that acts returns its
  result with the list of what it did.
\<close>

datatype event =
    GenerateContent request
  | Sleep nat
  | StError pystr
  | StWarning pystr
  | StInfo pystr
  | StText pystr
  | DisplayReport ATSResult

fun emit :: "event list \<Rightarrow> 'a \<times> event list \<Rightarrow> 'a \<times> event list" where
  "emit evs (r, rest) = (r, evs @ rest)"

text \<open>
  A decoded JSON document. \<open>'f\<close> is the type of the numbers that are not integers, which
  the model leaves open. An object is a finite map, as a Python \<^verbatim>\<open>dict\<close> is.
\<close>

datatype 'f json =
    JNull
  | JBool bool
  | JInt int
  | JFloat 'f
  | JStr pystr
  | JArr "'f json list"
  | JObj "(pystr, 'f json) fmap"

text \<open>
  pydantic is a library, not code of this repository. What the class declarations of the
  source decide is modelled here: the names of the fields, that each is required, their
  types, the nesting of \<open>Feedback\<close> in \<open>ATSResult\<close>, and that no field carries a
  constraint (\<^verbatim>\<open>Field\<close> is given a description only). What the library decides alone is
  a parameter: the decoding of the raw text, what it makes of a value that is not of the
  field's type already (its lax mode converts some of them), and the text of the error it
  raises.
\<close>

record 'f pydantic =
  json_loads :: "pystr \<Rightarrow> 'f json option"
  coerce_int :: "'f json \<Rightarrow> int option"
  coerce_str :: "'f json \<Rightarrow> pystr option"
  error_text :: "pystr \<Rightarrow> pystr"

fun int_field :: "'f pydantic \<Rightarrow> 'f json \<Rightarrow> int option" where
  "int_field L (JInt i) = Some i"
| "int_field L j = coerce_int L j"

fun str_field :: "'f pydantic \<Rightarrow> 'f json \<Rightarrow> pystr option" where
  "str_field L (JStr s) = Some s"
| "str_field L j = coerce_str L j"

text \<open>A required field: absent from the object, the validation fails.\<close>

definition required ::
  "(pystr, 'f json) fmap \<Rightarrow> string \<Rightarrow> ('f json \<Rightarrow> 'a option) \<Rightarrow> 'a option" where
  "required m name validator = Option.bind (fmlookup m (py name)) validator"

fun validate_Feedback :: "'f pydantic \<Rightarrow> 'f json \<Rightarrow> Feedback option" where
  "validate_Feedback L (JObj m) =
     Option.bind (required m ''keywordMatch'' (str_field L)) (\<lambda>k.
     Option.bind (required m ''contentImpact'' (str_field L)) (\<lambda>c.
     Option.bind (required m ''formattingAndStructure'' (str_field L)) (\<lambda>f.
       Some \<lparr>keywordMatch = k, contentImpact = c, formattingAndStructure = f\<rparr>)))"
| "validate_Feedback L j = None"

fun validate_ATSResult :: "'f pydantic \<Rightarrow> 'f json \<Rightarrow> ATSResult option" where
  "validate_ATSResult L (JObj m) =
     Option.bind (required m ''score'' (int_field L)) (\<lambda>sc.
     Option.bind (required m ''summary'' (str_field L)) (\<lambda>su.
     Option.bind (required m ''feedback'' (validate_Feedback L)) (\<lambda>fb.
       Some \<lparr>score = sc, summary = su, feedback = fb\<rparr>)))"
| "validate_ATSResult L j = None"

text \<open>
  \<^verbatim>\<open>ATSResult.model_validate_json(json_data)\<close>: the report, or a \<^verbatim>\<open>ValidationError\<close>, which
  is a \<^verbatim>\<open>ValueError\<close>, for a text that is not JSON or does not fit the schema.
\<close>

definition model_validate_json :: "'f pydantic \<Rightarrow> pystr \<Rightarrow> exn + ATSResult" where
  "model_validate_json L json_data =
     (case Option.bind (json_loads L json_data) (validate_ATSResult L) of
        None \<Rightarrow> Inl (ValueError (error_text L json_data))
      | Some ats_report \<Rightarrow> Inr ats_report)"

section \<open>The request (lines 74 to 104)\<close>

definition system_prompt :: pystr where
  "system_prompt = py (
     ''You are a world-class Applicant Tracking System (ATS) analyst with 20 years of '' @
     ''experience. Your task is to evaluate a candidate's resume against a specific job '' @
     ''description. Analyze the documents across three core areas: Keyword Match, '' @
     ''Content Impact (quantifiable achievements, action verbs), and Formatting/Structure '' @
     ''(ATS parsability, standard headings). Generate a compatibility score from 0 to 100 '' @
     ''and provide detailed, actionable feedback. Ensure all feedback is professional and '' @
     ''constructive. The output MUST adhere strictly to the provided JSON schema.'')"

definition user_query :: "pystr \<Rightarrow> pystr \<Rightarrow> pystr" where
  "user_query resume_text jd_text =
     nl @ py ''    Analyze the following RESUME against the JOB DESCRIPTION.'' @ nl @
     nl @
     py ''    ---'' @ nl @
     py ''    RESUME TEXT:'' @ nl @
     py ''    '' @ resume_text @ nl @
     py ''    ---'' @ nl @
     py ''    JOB DESCRIPTION:'' @ nl @
     py ''    '' @ jd_text @ nl @
     py ''    ''"

text \<open>
  The request of every attempt. The JSON schema sent along and the temperature 0.2 are
  constants of the source that no behaviour of this program depends on; they are left out.
\<close>

definition build_request :: "pystr \<Rightarrow> pystr \<Rightarrow> request" where
  "build_request resume_text jd_text =
     \<lparr>model = py ''gemini-2.5-flash-preview-09-2025'',
      response_mime_type = py ''application/json'',
      system_instruction = system_prompt,
      user_text = user_query resume_text jd_text\<rparr>"

section \<open>The retry loop (lines 106 to 132)\<close>

text \<open>
  The client is what \<^verbatim>\<open>client.models.generate_content\<close> does: for a request and the number
  of calls this analysis has made before, it raises or returns the text of the response.
  Whatever the body of the \<^verbatim>\<open>try\<close> raises, the call or the validation, goes to the first
  \<^verbatim>\<open>except\<close> clause of its class; so a response without a text, on which the validation
  raises, runs as the outcome \<open>Inl\<close> of that exception does.
\<close>

type_synonym client = "request \<Rightarrow> nat \<Rightarrow> exn + pystr"

definition max_retries :: nat where
  "max_retries = 3"

text \<open>
  The three messages of the handlers, with \<^verbatim>\<open>str(e)\<close> at the end. The first one renders
  \<^verbatim>\<open>max_retries\<close>, which is 3.
\<close>

definition api_error_msg :: "pystr \<Rightarrow> pystr" where
  "api_error_msg e = py ''Failed to get a response after 3 attempts. API Error: '' @ e"

definition parse_error_msg :: "pystr \<Rightarrow> pystr" where
  "parse_error_msg e = py ''Failed to parse AI response (Invalid JSON structure). Error: '' @ e"

definition unexpected_error_msg :: "pystr \<Rightarrow> pystr" where
  "unexpected_error_msg e = py ''An unexpected error occurred during analysis: '' @ e"

text \<open>The body of the \<^verbatim>\<open>try\<close>, up to its \<^verbatim>\<open>return\<close>.\<close>

definition try_body :: "'f pydantic \<Rightarrow> client \<Rightarrow> request \<Rightarrow> nat \<Rightarrow> exn + ATSResult" where
  "try_body L client req attempt =
     (case client req attempt of
        Inl e \<Rightarrow> Inl e
      | Inr json_data \<Rightarrow> model_validate_json L json_data)"

text \<open>
  The loop \<^verbatim>\<open>for attempt in range(max_retries)\<close>, from the given attempt on. A sleep is
  given in seconds. The last branch is the \<^verbatim>\<open>return None\<close> after the loop.
\<close>

function attempts ::
  "'f pydantic \<Rightarrow> client \<Rightarrow> request \<Rightarrow> nat \<Rightarrow> ATSResult option \<times> event list" where
  "attempts L client req attempt =
     (if attempt < max_retries then
        (case try_body L client req attempt of
           Inr ats_report \<Rightarrow> (Some ats_report, [GenerateContent req])
         | Inl (APIError e) \<Rightarrow>
             (if attempt < max_retries - 1 then
                emit [GenerateContent req, Sleep (2 ^ attempt)]
                  (attempts L client req (attempt + 1))
              else (None, [GenerateContent req, StError (api_error_msg e)]))
         | Inl (ValueError e) \<Rightarrow> (None, [GenerateContent req, StError (parse_error_msg e)])
         | Inl (Exception e) \<Rightarrow> (None, [GenerateContent req, StError (unexpected_error_msg e)]))
      else (None, []))"
  by pat_completeness auto
termination
  by (relation "measure (\<lambda>(L, client, req, attempt). max_retries - attempt)") auto

declare attempts.simps [simp del]

definition analyze_resume_ats ::
  "'f pydantic \<Rightarrow> client \<Rightarrow> pystr \<Rightarrow> pystr \<Rightarrow> ATSResult option \<times> event list" where
  "analyze_resume_ats L client resume_text jd_text =
     attempts L client (build_request resume_text jd_text) 0"

text \<open>
  The events of a run of \<open>n\<close> failed attempts, each followed by its sleep, and the number
  of requests in a run.
\<close>

definition backoff :: "request \<Rightarrow> nat \<Rightarrow> event list" where
  "backoff req n = concat (map (\<lambda>i. [GenerateContent req, Sleep (2 ^ i)]) [0..<n])"

fun calls :: "event list \<Rightarrow> nat" where
  "calls [] = 0"
| "calls (GenerateContent req # evs) = Suc (calls evs)"
| "calls (ev # evs) = calls evs"

text \<open>The JSON document that has exactly the fields of the schema, each of its type.\<close>

definition conforming :: "int \<Rightarrow> pystr \<Rightarrow> pystr \<Rightarrow> pystr \<Rightarrow> pystr \<Rightarrow> 'f json" where
  "conforming sc su k c f =
     JObj (fmap_of_list
       [(py ''score'', JInt sc),
        (py ''summary'', JStr su),
        (py ''feedback'', JObj (fmap_of_list
          [(py ''keywordMatch'', JStr k),
           (py ''contentImpact'', JStr c),
           (py ''formattingAndStructure'', JStr f)]))])"

section \<open>PDF extraction (lines 28 to 47)\<close>

text \<open>
  \<^verbatim>\<open>str.isspace\<close> of one code point, as CPython decides it, and \<^verbatim>\<open>str.strip()\<close>.
\<close>

definition isspace :: "nat \<Rightarrow> bool" where
  "isspace c \<longleftrightarrow>
     c \<in> set ([0x09, 0x0A, 0x0B, 0x0C, 0x0D, 0x1C, 0x1D, 0x1E, 0x1F, 0x20, 0x85, 0xA0, 0x1680] @
              [0x2000..<0x200B] @ [0x2028, 0x2029, 0x202F, 0x205F, 0x3000])"

definition strip :: "pystr \<Rightarrow> pystr" where
  "strip s = rev (dropWhile isspace (rev (dropWhile isspace s)))"

fun exn_text :: "exn \<Rightarrow> pystr" where
  "exn_text (APIError e) = e"
| "exn_text (ValueError e) = e"
| "exn_text (Exception e) = e"

text \<open>
  What the PDF library does with the uploaded file: \<^verbatim>\<open>PdfReader\<close> raises, or it gives the
  pages, and \<^verbatim>\<open>extract_text\<close> of a page returns a text or raises.
\<close>

datatype page = PageText pystr | PageRaises exn

datatype pdf = Unreadable exn | Pages "page list"

definition page_warning :: pystr where
  "page_warning = [0x26A0, 0xFE0F] @ py (
     '' Warning: Could not extract text from one or more pages. '' @
     ''Ensure your PDF is text-selectable, not an image scan.'')"

definition no_text_msg :: pystr where
  "no_text_msg = [0x274C] @ py
     '' Failed to extract any readable text from the PDF. Is it an image-only file?''"

definition pdf_error_msg :: "exn \<Rightarrow> pystr" where
  "pdf_error_msg e = [0x274C] @ py '' An error occurred during PDF reading: '' @ exn_text e"

text \<open>The loop over the pages, with the text collected so far.\<close>

fun read_pages :: "page list \<Rightarrow> pystr \<Rightarrow> (exn + pystr) \<times> event list" where
  "read_pages [] text = (Inr text, [])"
| "read_pages (PageRaises e # pages) text = (Inl e, [])"
| "read_pages (PageText page_text # pages) text =
     (if page_text \<noteq> [] then read_pages pages (text @ page_text @ nl)
      else emit [StWarning page_warning] (read_pages pages text))"

definition extract_text_from_pdf :: "pdf \<Rightarrow> pystr option \<times> event list" where
  "extract_text_from_pdf uploaded_file =
     (case uploaded_file of
        Unreadable e \<Rightarrow> (None, [StError (pdf_error_msg e)])
      | Pages pages \<Rightarrow>
          (case read_pages pages [] of
             (Inl e, evs) \<Rightarrow> (None, evs @ [StError (pdf_error_msg e)])
           | (Inr text, evs) \<Rightarrow>
               (if strip text = [] then (None, evs @ [StError no_text_msg])
                else (Some text, evs))))"

section \<open>The client (lines 51 to 65)\<close>

text \<open>
  The process environment after \<^verbatim>\<open>dotenv.load_dotenv()\<close>: the value of the variable
  \<^verbatim>\<open>GEMINI_API_KEY\<close>, and what \<^verbatim>\<open>genai.Client()\<close> does. The model is of a call that the
  resource cache does not answer.
\<close>

record environment =
  GEMINI_API_KEY :: "pystr option"
  new_client :: "exn + client"

definition key_not_found_msg :: pystr where
  "key_not_found_msg = [0x274C] @ py '' Gemini API Key not found!''"

definition key_hint_msg :: pystr where
  "key_hint_msg = py (
     ''Please set the GEMINI_API_KEY environment variable (or ensure it's loaded '' @
     ''from your .env file) to run the analysis.'')"

definition client_error_msg :: "exn \<Rightarrow> pystr" where
  "client_error_msg e = [0x274C] @ py '' Failed to initialize Gemini Client: '' @ exn_text e"

text \<open>\<^verbatim>\<open>not x\<close> for an optional text: it is \<^verbatim>\<open>None\<close> or empty.\<close>

fun falsy :: "pystr option \<Rightarrow> bool" where
  "falsy None = True"
| "falsy (Some s) = (s = [])"

definition get_gemini_client :: "environment \<Rightarrow> client option \<times> event list" where
  "get_gemini_client env =
     (if falsy (GEMINI_API_KEY env) then
        (None, [StError key_not_found_msg, StInfo key_hint_msg])
      else
        (case new_client env of
           Inr client \<Rightarrow> (Some client, [])
         | Inl e \<Rightarrow> (None, [StError (client_error_msg e)])))"

section \<open>The page (lines 186 to 248)\<close>

text \<open>
  One run of the script, given what the widgets return: \<^verbatim>\<open>st.file_uploader\<close> the uploaded
  file, \<^verbatim>\<open>st.text_area\<close> the job description, \<^verbatim>\<open>st.button\<close> whether it was pressed. Of the calls that only lay the page out (title,
  columns, rules, spinners, the widgets themselves) the model keeps none; it keeps every
  message, the preview of the extracted text and the display of the report.
\<close>

record widgets =
  file_uploader :: "pdf option"
  text_area :: pystr
  button :: bool

definition extracted_msg :: pystr where
  "extracted_msg = [0x2705] @ py
     '' Text extracted successfully. You can review the extracted text below.''"

definition upload_msg :: pystr where
  "upload_msg = py ''Please upload a PDF file for your resume.''"

definition cannot_proceed_msg :: pystr where
  "cannot_proceed_msg = py
     ''Could not proceed: Failed to extract readable text from the uploaded PDF.''"

definition enter_jd_msg :: pystr where
  "enter_jd_msg = py ''Please enter the Job Description text.''"

definition main_app :: "'f pydantic \<Rightarrow> environment \<Rightarrow> widgets \<Rightarrow> event list" where
  "main_app L env w =
     (case get_gemini_client env of
        (None, evs0) \<Rightarrow> evs0
      | (Some client, evs0) \<Rightarrow>
          (let (resume_text, evs1) =
                 (case file_uploader w of
                    None \<Rightarrow> (None, [])
                  | Some f \<Rightarrow>
                      (case extract_text_from_pdf f of
                         (None, evs) \<Rightarrow> (None, evs)
                       | (Some text, evs) \<Rightarrow>
                           (Some text,
                            if text \<noteq> [] then evs @ [StInfo extracted_msg, StText text]
                            else evs)));
               evs2 =
                 (if button w then
                    (case file_uploader w of
                       None \<Rightarrow> [StError upload_msg]
                     | Some f \<Rightarrow>
                         (case resume_text of
                            None \<Rightarrow> [StError cannot_proceed_msg]
                          | Some text \<Rightarrow>
                              if text = [] then [StError cannot_proceed_msg]
                              else if text_area w = [] then [StError enter_jd_msg]
                              else
                                (case analyze_resume_ats L client text (text_area w) of
                                   (Some report, evs) \<Rightarrow> evs @ [DisplayReport report]
                                 | (None, evs) \<Rightarrow> evs)))
                  else [])
           in evs0 @ evs1 @ evs2))"

section \<open>Stand-ins for the collaborators\<close>

text \<open>
  A client that answers the calls of an analysis from a script, and a library that decodes
  two documents: the report of the specification's round trip, and the same report with
  the score 150.
\<close>

definition scripted :: "(exn + pystr) list \<Rightarrow> client" where
  "scripted outcomes req n =
     (if n < length outcomes then outcomes ! n else Inl (Exception (py ''no more answers'')))"

definition report_87 :: pystr where
  \<open>report_87 = py (
     ''{"score":87,"summary":"S","feedback":{"keywordMatch":"a",'' @
     ''"contentImpact":"b","formattingAndStructure":"c"}}'')\<close>

definition report_150 :: pystr where
  \<open>report_150 = py (
     ''{"score":150,"summary":"S","feedback":{"keywordMatch":"a",'' @
     ''"contentImpact":"b","formattingAndStructure":"c"}}'')\<close>

definition table_lib :: "unit pydantic" where
  "table_lib =
     \<lparr>json_loads = map_of
        [(report_87, conforming 87 (py ''S'') (py ''a'') (py ''b'') (py ''c'')),
         (report_150, conforming 150 (py ''S'') (py ''a'') (py ''b'') (py ''c''))],
      coerce_int = (\<lambda>j. None),
      coerce_str = (\<lambda>j. None),
      error_text = (\<lambda>raw. py ''Invalid JSON'')\<rparr>"

section \<open>Properties of the retry loop\<close>

lemma emit_emit: "emit a (emit b x) = emit (a @ b) x"
  by (cases x) simp

lemma emit_Nil: "emit [] x = x"
  by (cases x) simp

lemma emit_eq: "emit evs x = (fst x, evs @ snd x)"
  by (cases x) simp

lemma backoff_Suc: "backoff req (Suc n) = backoff req n @ [GenerateContent req, Sleep (2 ^ n)]"
  by (simp add: backoff_def)

lemma backoff_2: "backoff req 2 = [GenerateContent req, Sleep 1, GenerateContent req, Sleep 2]"
  by (simp add: backoff_def numeral_2_eq_2)

lemma calls_append: "calls (xs @ ys) = calls xs + calls ys"
  by (induction xs rule: calls.induct) simp_all

lemma calls_warnings: "calls (replicate n (StWarning m)) = 0"
  by (induction n) simp_all

lemma try_body_raise: "client req a = Inl e \<Longrightarrow> try_body L client req a = Inl e"
  by (simp add: try_body_def)

lemma try_body_return:
  "client req a = Inr raw \<Longrightarrow> try_body L client req a = model_validate_json L raw"
  by (simp add: try_body_def)

lemma try_body_Inr:
  "try_body L client req a = Inr r \<Longrightarrow>
     \<exists>raw. client req a = Inr raw \<and> model_validate_json L raw = Inr r"
  by (auto simp: try_body_def split: sum.splits)

lemma attempts_retry:
  assumes "try_body L client req a = Inl (APIError d)" and "a + 1 < max_retries"
  shows "attempts L client req a =
           emit [GenerateContent req, Sleep (2 ^ a)] (attempts L client req (a + 1))"
  using assms by (subst attempts.simps) (auto simp: less_diff_conv)

lemma attempts_success:
  assumes "a < max_retries" and "try_body L client req a = Inr r"
  shows "attempts L client req a = (Some r, [GenerateContent req])"
  using assms by (subst attempts.simps) simp

lemma attempts_exhausted:
  assumes "a + 1 = max_retries" and "try_body L client req a = Inl (APIError d)"
  shows "attempts L client req a = (None, [GenerateContent req, StError (api_error_msg d)])"
  using assms by (subst attempts.simps) auto

lemma attempts_value_error:
  assumes "a < max_retries" and "try_body L client req a = Inl (ValueError d)"
  shows "attempts L client req a = (None, [GenerateContent req, StError (parse_error_msg d)])"
  using assms by (subst attempts.simps) simp

lemma attempts_exception:
  assumes "a < max_retries" and "try_body L client req a = Inl (Exception d)"
  shows "attempts L client req a = (None, [GenerateContent req, StError (unexpected_error_msg d)])"
  using assms by (subst attempts.simps) simp

lemma attempts_after_failures:
  assumes "n < max_retries"
    and "\<forall>i<n. \<exists>d. try_body L client req i = Inl (APIError d)"
  shows "attempts L client req 0 = emit (backoff req n) (attempts L client req n)"
  using assms
proof (induction n)
  case 0
  then show ?case by (simp add: backoff_def emit_Nil)
next
  case (Suc n)
  from Suc.prems obtain d where d: "try_body L client req n = Inl (APIError d)"
    by blast
  have "attempts L client req 0 = emit (backoff req n) (attempts L client req n)"
    using Suc by simp
  also have "attempts L client req n =
      emit [GenerateContent req, Sleep (2 ^ n)] (attempts L client req (n + 1))"
    using d Suc.prems(1) by (intro attempts_retry) simp_all
  finally show ?case
    by (simp add: emit_emit backoff_Suc)
qed

lemma attempts_first_call:
  assumes "a < max_retries"
  shows "\<exists>r rest. attempts L client req a = (r, GenerateContent req # rest)"
proof (cases "try_body L client req a")
  case (Inr r)
  with assms show ?thesis by (simp add: attempts_success)
next
  case (Inl e)
  show ?thesis
  proof (cases e)
    case (APIError d)
    show ?thesis
    proof (cases "a + 1 < max_retries")
      case True
      obtain r rest where "attempts L client req (a + 1) = (r, rest)"
        by (cases "attempts L client req (a + 1)")
      with Inl APIError True show ?thesis
        by (simp add: attempts_retry)
    next
      case False
      with assms have "a + 1 = max_retries" by simp
      with Inl APIError show ?thesis
        by (simp add: attempts_exhausted)
    qed
  next
    case (ValueError d)
    with Inl assms show ?thesis by (simp add: attempts_value_error)
  next
    case (Exception d)
    with Inl assms show ?thesis by (simp add: attempts_exception)
  qed
qed

lemma attempts_outcome:
  assumes "a < max_retries"
  shows "(\<exists>report evs k raw. attempts L client req a = (Some report, evs) \<and>
            k < max_retries \<and> client req k = Inr raw \<and>
            model_validate_json L raw = Inr report \<and> (\<forall>m. StError m \<notin> set evs)) \<or>
         (\<exists>pre m e. attempts L client req a = (None, pre @ [StError m]) \<and>
            (\<forall>m'. StError m' \<notin> set pre) \<and>
            (m = api_error_msg e \<or> m = parse_error_msg e \<or> m = unexpected_error_msg e))"
  using assms
proof (induction "max_retries - a" arbitrary: a)
  case 0
  then show ?case by simp
next
  case (Suc n)
  show ?case
  proof (cases "try_body L client req a")
    case (Inr r)
    then obtain raw where "client req a = Inr raw" "model_validate_json L raw = Inr r"
      using try_body_Inr by blast
    moreover have "attempts L client req a = (Some r, [GenerateContent req])"
      using Inr Suc.prems by (simp add: attempts_success)
    ultimately show ?thesis
      using Suc.prems by auto
  next
    case (Inl x)
    show ?thesis
    proof (cases x)
      case (APIError d)
      show ?thesis
      proof (cases "a + 1 < max_retries")
        case True
        have step: "attempts L client req a =
            emit [GenerateContent req, Sleep (2 ^ a)] (attempts L client req (a + 1))"
          using Inl APIError True by (simp add: attempts_retry)
        have "n = max_retries - (a + 1)"
          using Suc.hyps(2) by simp
        from Suc.hyps(1) [OF this True] consider
          (ok) report evs k raw where
            "attempts L client req (a + 1) = (Some report, evs)" "k < max_retries"
            "client req k = Inr raw" "model_validate_json L raw = Inr report"
            "\<forall>m. StError m \<notin> set evs"
        | (err) pre m e where
            "attempts L client req (a + 1) = (None, pre @ [StError m])"
            "\<forall>m'. StError m' \<notin> set pre"
            "m = api_error_msg e \<or> m = parse_error_msg e \<or> m = unexpected_error_msg e"
          by blast
        then show ?thesis
        proof cases
          case ok
          then show ?thesis
            using step by auto
        next
          case err
          have "attempts L client req a =
              (None, (GenerateContent req # Sleep (2 ^ a) # pre) @ [StError m])"
            using step err(1) by simp
          moreover have "\<forall>m'. StError m' \<notin> set (GenerateContent req # Sleep (2 ^ a) # pre)"
            using err(2) by simp
          ultimately show ?thesis
            using err(3) by blast
        qed
      next
        case False
        with Suc.prems have "a + 1 = max_retries" by simp
        with Inl APIError have "attempts L client req a =
            (None, [GenerateContent req] @ [StError (api_error_msg d)])"
          by (simp add: attempts_exhausted)
        moreover have "\<forall>m'. StError m' \<notin> set [GenerateContent req]" by simp
        ultimately show ?thesis by blast
      qed
    next
      case (ValueError d)
      with Inl Suc.prems have "attempts L client req a =
          (None, [GenerateContent req] @ [StError (parse_error_msg d)])"
        by (simp add: attempts_value_error)
      moreover have "\<forall>m'. StError m' \<notin> set [GenerateContent req]" by simp
      ultimately show ?thesis by blast
    next
      case (Exception d)
      with Inl Suc.prems have "attempts L client req a =
          (None, [GenerateContent req] @ [StError (unexpected_error_msg d)])"
        by (simp add: attempts_exception)
      moreover have "\<forall>m'. StError m' \<notin> set [GenerateContent req]" by simp
      ultimately show ?thesis by blast
    qed
  qed
qed

lemma attempts_calls:
  "a \<le> max_retries \<Longrightarrow> calls (snd (attempts L client req a)) \<le> max_retries - a"
proof (induction "max_retries - a" arbitrary: a)
  case 0
  then show ?case by (subst attempts.simps) simp
next
  case (Suc n)
  then have lt: "a < max_retries" by simp
  show ?case
  proof (cases "try_body L client req a")
    case (Inr r)
    with lt show ?thesis by (simp add: attempts_success)
  next
    case (Inl x)
    show ?thesis
    proof (cases x)
      case (APIError d)
      show ?thesis
      proof (cases "a + 1 < max_retries")
        case True
        have "n = max_retries - (a + 1)" using Suc.hyps(2) by simp
        from Suc.hyps(1) [OF this] True
        have "calls (snd (attempts L client req (a + 1))) \<le> max_retries - (a + 1)" by simp
        with Inl APIError True show ?thesis
          by (simp add: attempts_retry emit_eq)
      next
        case False
        with lt have "a + 1 = max_retries" by simp
        with Inl APIError show ?thesis by (simp add: attempts_exhausted)
      qed
    next
      case (ValueError d)
      with Inl lt show ?thesis by (simp add: attempts_value_error)
    next
      case (Exception d)
      with Inl lt show ?thesis by (simp add: attempts_exception)
    qed
  qed
qed

lemma validate_conforming:
  "validate_ATSResult L (conforming sc su k c f) =
     Some \<lparr>score = sc, summary = su,
           feedback = \<lparr>keywordMatch = k, contentImpact = c, formattingAndStructure = f\<rparr>\<rparr>"
  by (simp add: conforming_def required_def py_def fmlookup_of_list)

section \<open>Properties of the extraction and of the page\<close>

lemma strip_empty_iff: "strip s = [] \<longleftrightarrow> list_all isspace s"
proof
  assume "list_all isspace s"
  then show "strip s = []"
    by (auto simp: strip_def list_all_iff dest: set_dropWhileD)
next
  assume "strip s = []"
  then have all: "\<forall>x\<in>set (dropWhile isspace s). isspace x"
    by (simp add: strip_def dropWhile_eq_Nil_conv)
  have "dropWhile isspace s = []"
  proof (rule ccontr)
    assume ne: "dropWhile isspace s \<noteq> []"
    then have "\<not> isspace (hd (dropWhile isspace s))"
      by (rule hd_dropWhile)
    moreover have "hd (dropWhile isspace s) \<in> set (dropWhile isspace s)"
      using ne by simp
    ultimately show False
      using all by blast
  qed
  then show "list_all isspace s"
    by (simp add: list_all_iff dropWhile_eq_Nil_conv)
qed

lemma isspace_nl: "list_all isspace nl"
  by (simp add: nl_def isspace_def)

lemma read_pages_texts:
  "read_pages (map PageText texts) acc =
     (Inr (acc @ concat (map (\<lambda>t. t @ nl) (filter (\<lambda>t. t \<noteq> []) texts))),
      replicate (length (filter (\<lambda>t. t = []) texts)) (StWarning page_warning))"
  by (induction texts arbitrary: acc) simp_all

lemma joined_all_space:
  "list_all isspace (concat (map (\<lambda>t. t @ nl) (filter (\<lambda>t. t \<noteq> []) texts))) \<longleftrightarrow>
     (\<forall>t\<in>set texts. list_all isspace t)"
  by (induction texts) (auto simp: isspace_nl)

lemma extract_texts:
  "extract_text_from_pdf (Pages (map PageText texts)) =
     (if \<forall>t\<in>set texts. list_all isspace t
      then (None, replicate (length (filter (\<lambda>t. t = []) texts)) (StWarning page_warning) @
                    [StError no_text_msg])
      else (Some (concat (map (\<lambda>t. t @ nl) (filter (\<lambda>t. t \<noteq> []) texts))),
            replicate (length (filter (\<lambda>t. t = []) texts)) (StWarning page_warning)))"
  by (simp add: extract_text_from_pdf_def read_pages_texts strip_empty_iff joined_all_space)

lemma calls_get_gemini_client: "calls (snd (get_gemini_client env)) = 0"
  by (simp add: get_gemini_client_def split: sum.splits)

section \<open>The claims\<close>

text \<open>
  C1. Let the attempts before attempt \<open>k\<close> (counted from 0, below \<open>max_retries\<close>) fail
  with an \<^verbatim>\<open>APIError\<close>, and let attempt \<open>k\<close> return a text that decodes to the document
  with exactly the fields of the schema: score \<open>sc\<close>, summary \<open>su\<close>, feedback \<open>a\<close>,
  \<open>b\<close>, \<open>c\<close>. Then \<open>analyze_resume_ats\<close> returns the report with these five values,
  and the request of attempt \<open>k\<close> is the last thing it does: no sleep and no request
  follow. With \<open>k = 0\<close> the run is the single request.
\<close>

theorem round_trip:
  assumes "k < max_retries"
    and "\<forall>i<k. \<exists>d. client (build_request resume_text jd_text) i = Inl (APIError d)"
    and "client (build_request resume_text jd_text) k = Inr raw"
    and "json_loads L raw = Some (conforming sc su a b c)"
  shows "analyze_resume_ats L client resume_text jd_text =
     (Some \<lparr>score = sc, summary = su,
            feedback = \<lparr>keywordMatch = a, contentImpact = b, formattingAndStructure = c\<rparr>\<rparr>,
      backoff (build_request resume_text jd_text) k @
        [GenerateContent (build_request resume_text jd_text)])"
proof -
  let ?req = "build_request resume_text jd_text"
  have "try_body L client ?req k = model_validate_json L raw"
    using assms(3) by (rule try_body_return)
  also have "\<dots> = Inr \<lparr>score = sc, summary = su,
            feedback = \<lparr>keywordMatch = a, contentImpact = b, formattingAndStructure = c\<rparr>\<rparr>"
    using assms(4) by (simp add: model_validate_json_def validate_conforming)
  finally have "attempts L client ?req k =
      (Some \<lparr>score = sc, summary = su,
            feedback = \<lparr>keywordMatch = a, contentImpact = b, formattingAndStructure = c\<rparr>\<rparr>,
       [GenerateContent ?req])"
    using assms(1) by (intro attempts_success)
  moreover have "attempts L client ?req 0 = emit (backoff ?req k) (attempts L client ?req k)"
    using assms(1,2) by (intro attempts_after_failures) (auto dest: try_body_raise)
  ultimately show ?thesis
    by (simp add: analyze_resume_ats_def)
qed

theorem round_trip_witness:
  "analyze_resume_ats table_lib (scripted [Inr report_87]) (py ''resume'') (py ''job'') =
     (Some \<lparr>score = 87, summary = py ''S'',
            feedback = \<lparr>keywordMatch = py ''a'', contentImpact = py ''b'',
                        formattingAndStructure = py ''c''\<rparr>\<rparr>,
      [GenerateContent (build_request (py ''resume'') (py ''job''))])"
  using round_trip [where k = 0 and client = "scripted [Inr report_87]" and L = table_lib
      and raw = report_87 and resume_text = "py ''resume''" and jd_text = "py ''job''"
      and sc = 87 and su = "py ''S''" and a = "py ''a''" and b = "py ''b''" and c = "py ''c''"]
  by (simp add: max_retries_def scripted_def table_lib_def backoff_def)

text \<open>
  C2, as the code has it. The failure that is retried is the \<^verbatim>\<open>APIError\<close>. Let the first
  \<open>n\<close> attempts fail with an \<^verbatim>\<open>APIError\<close>, with \<open>n\<close> below \<open>max_retries = 3\<close>, so that
  attempts remain after each. Then the run begins with these \<open>n\<close> requests, the one of
  attempt \<open>i\<close> (counted from 0) followed by a sleep of \<open>2 ^ i\<close> seconds, and the next
  request comes right after the last sleep: counted from 1, the sleep after attempt \<open>k\<close>
  is \<open>2 ^ (k - 1)\<close>. In particular, when attempts 1 and 2 fail with an \<^verbatim>\<open>APIError\<close> and
  attempt 3 returns a text that validates, the result is its report and the run is:
  request, sleep 1, request, sleep 2, request.
\<close>

theorem backoff_sleeps:
  assumes "n < max_retries"
    and "\<forall>i<n. \<exists>d. client (build_request resume_text jd_text) i = Inl (APIError d)"
  shows "(\<exists>r rest. analyze_resume_ats L client resume_text jd_text =
            (r, concat (map (\<lambda>i. [GenerateContent (build_request resume_text jd_text), Sleep (2 ^ i)]) [0..<n]) @
                GenerateContent (build_request resume_text jd_text) # rest)) \<and>
         (\<forall>raw report. n = 2 \<and> client (build_request resume_text jd_text) 2 = Inr raw \<and>
              model_validate_json L raw = Inr report \<longrightarrow>
            analyze_resume_ats L client resume_text jd_text =
              (Some report,
               [GenerateContent (build_request resume_text jd_text), Sleep 1,
                GenerateContent (build_request resume_text jd_text), Sleep 2,
                GenerateContent (build_request resume_text jd_text)]))"
proof -
  let ?req = "build_request resume_text jd_text"
  have steps: "attempts L client ?req 0 = emit (backoff ?req n) (attempts L client ?req n)"
    using assms by (intro attempts_after_failures) (auto dest: try_body_raise)
  obtain r rest where "attempts L client ?req n = (r, GenerateContent ?req # rest)"
    using attempts_first_call [OF assms(1)] by blast
  with steps have first: "\<exists>r rest. analyze_resume_ats L client resume_text jd_text =
            (r, concat (map (\<lambda>i. [GenerateContent ?req, Sleep (2 ^ i)]) [0..<n]) @
                GenerateContent ?req # rest)"
    by (simp add: analyze_resume_ats_def backoff_def)
  have second: "analyze_resume_ats L client resume_text jd_text =
      (Some report, [GenerateContent ?req, Sleep 1, GenerateContent ?req, Sleep 2,
                     GenerateContent ?req])"
    if "n = 2" and "client ?req 2 = Inr raw" and "model_validate_json L raw = Inr report"
    for raw report
  proof -
    have "try_body L client ?req 2 = Inr report"
      using that by (simp add: try_body_return)
    then have "attempts L client ?req 2 = (Some report, [GenerateContent ?req])"
      by (intro attempts_success) (simp_all add: max_retries_def)
    with steps that(1) show ?thesis
      by (simp add: analyze_resume_ats_def backoff_2)
  qed
  from first second show ?thesis by blast
qed

theorem backoff_sleeps_witness:
  "analyze_resume_ats table_lib
     (scripted [Inl (APIError (py ''429'')), Inl (APIError (py ''503'')), Inr report_87])
     (py ''resume'') (py ''job'') =
     (Some \<lparr>score = 87, summary = py ''S'',
            feedback = \<lparr>keywordMatch = py ''a'', contentImpact = py ''b'',
                        formattingAndStructure = py ''c''\<rparr>\<rparr>,
      [GenerateContent (build_request (py ''resume'') (py ''job'')), Sleep 1,
       GenerateContent (build_request (py ''resume'') (py ''job'')), Sleep 2,
       GenerateContent (build_request (py ''resume'') (py ''job''))])"
proof -
  let ?client = "scripted [Inl (APIError (py ''429'')), Inl (APIError (py ''503'')), Inr report_87]"
  let ?req = "build_request (py ''resume'') (py ''job'')"
  have "(2::nat) < max_retries"
    by (simp add: max_retries_def)
  moreover have "\<forall>i<2. \<exists>d. ?client ?req i = Inl (APIError d)"
    by (simp add: scripted_def less_Suc_eq numeral_2_eq_2)
  moreover have "?client ?req 2 = Inr report_87"
    by (simp add: scripted_def)
  moreover have "model_validate_json table_lib report_87 =
      Inr \<lparr>score = 87, summary = py ''S'',
            feedback = \<lparr>keywordMatch = py ''a'', contentImpact = py ''b'',
                        formattingAndStructure = py ''c''\<rparr>\<rparr>"
    by (simp add: model_validate_json_def table_lib_def validate_conforming)
  ultimately show ?thesis
    using backoff_sleeps [where n = 2 and client = ?client and L = table_lib
        and resume_text = "py ''resume''" and jd_text = "py ''job''"]
    by blast
qed

text \<open>
  C2 as it is written counts a network error among the transient failures. The transport
  raises it as an exception that is not an \<^verbatim>\<open>APIError\<close>, and the loop does not retry it:
  when the first two calls fail so and the third would return a valid report, the run is
  the first request and the message of the unexpected error. There is no sleep, no second
  request, and the result is \<^verbatim>\<open>None\<close>.
\<close>

theorem transport_error_not_retried:
  "analyze_resume_ats table_lib
     (scripted [Inl (Exception (py ''connection reset'')),
                Inl (Exception (py ''connection reset'')), Inr report_87])
     (py ''resume'') (py ''job'') =
     (None,
      [GenerateContent (build_request (py ''resume'') (py ''job'')),
       StError (py ''An unexpected error occurred during analysis: '' @
                py ''connection reset'')])"
proof -
  let ?client = "scripted [Inl (Exception (py ''connection reset'')),
                Inl (Exception (py ''connection reset'')), Inr report_87]"
  let ?req = "build_request (py ''resume'') (py ''job'')"
  have "try_body table_lib ?client ?req 0 = Inl (Exception (py ''connection reset''))"
    by (simp add: try_body_def scripted_def)
  then have "attempts table_lib ?client ?req 0 =
      (None, [GenerateContent ?req, StError (unexpected_error_msg (py ''connection reset''))])"
    by (intro attempts_exception) (simp_all add: max_retries_def)
  then show ?thesis
    by (simp add: analyze_resume_ats_def unexpected_error_msg_def)
qed

text \<open>
  C3, as the code has it. When the three attempts fail with an \<^verbatim>\<open>APIError\<close>,
  \<open>analyze_resume_ats\<close> returns \<^verbatim>\<open>None\<close> and shows the message
  \<^verbatim>\<open>Failed to get a response after 3 attempts. API Error: \<close> followed by the text of the
  third \<^verbatim>\<open>APIError\<close>. The run is: request, sleep 1, request, sleep 2, request, error.
  There is no fourth request and no sleep after the third.
\<close>

theorem exhaustion:
  assumes "client (build_request resume_text jd_text) 0 = Inl (APIError d0)"
    and "client (build_request resume_text jd_text) 1 = Inl (APIError d1)"
    and "client (build_request resume_text jd_text) 2 = Inl (APIError d2)"
  shows "analyze_resume_ats L client resume_text jd_text =
     (None,
      [GenerateContent (build_request resume_text jd_text), Sleep 1,
       GenerateContent (build_request resume_text jd_text), Sleep 2,
       GenerateContent (build_request resume_text jd_text),
       StError (py ''Failed to get a response after 3 attempts. API Error: '' @ d2)])"
proof -
  let ?req = "build_request resume_text jd_text"
  have "\<forall>i<2. \<exists>d. try_body L client ?req i = Inl (APIError d)"
    using assms(1,2) by (auto simp: less_Suc_eq numeral_2_eq_2 dest: try_body_raise)
  then have "attempts L client ?req 0 = emit (backoff ?req 2) (attempts L client ?req 2)"
    by (intro attempts_after_failures) (simp_all add: max_retries_def)
  moreover have "attempts L client ?req 2 =
      (None, [GenerateContent ?req, StError (api_error_msg d2)])"
    using assms(3) by (intro attempts_exhausted) (simp_all add: max_retries_def try_body_raise)
  ultimately show ?thesis
    by (simp add: analyze_resume_ats_def backoff_2 api_error_msg_def)
qed

theorem exhaustion_witness:
  "analyze_resume_ats table_lib
     (scripted [Inl (APIError (py ''429'')), Inl (APIError (py ''429'')),
                Inl (APIError (py ''503'')), Inr report_87])
     (py ''resume'') (py ''job'') =
     (None,
      [GenerateContent (build_request (py ''resume'') (py ''job'')), Sleep 1,
       GenerateContent (build_request (py ''resume'') (py ''job'')), Sleep 2,
       GenerateContent (build_request (py ''resume'') (py ''job'')),
       StError (py ''Failed to get a response after 3 attempts. API Error: '' @ py ''503'')])"
  using exhaustion [where L = table_lib and resume_text = "py ''resume''" and jd_text = "py ''job''"
      and client = "scripted [Inl (APIError (py ''429'')), Inl (APIError (py ''429'')),
                Inl (APIError (py ''503'')), Inr report_87]"
      and ?d0.0 = "py ''429''" and ?d1.0 = "py ''429''" and ?d2.0 = "py ''503''"]
  by (simp add: scripted_def)

text \<open>
  C3 as it is written counts a network error among the transient failures. When every
  call fails with such an exception, which is not an \<^verbatim>\<open>APIError\<close>, the run ends at the
  first attempt: one request, then the message of the unexpected error, which is not the
  message of the exhausted attempts.
\<close>

theorem transport_errors_not_exhaustion:
  "analyze_resume_ats table_lib
     (scripted [Inl (Exception (py ''timed out'')), Inl (Exception (py ''timed out'')),
                Inl (Exception (py ''timed out''))])
     (py ''resume'') (py ''job'') =
     (None,
      [GenerateContent (build_request (py ''resume'') (py ''job'')),
       StError (py ''An unexpected error occurred during analysis: '' @ py ''timed out'')]) \<and>
   calls (snd (analyze_resume_ats table_lib
     (scripted [Inl (Exception (py ''timed out'')), Inl (Exception (py ''timed out'')),
                Inl (Exception (py ''timed out''))])
     (py ''resume'') (py ''job''))) = 1 \<and>
   py ''An unexpected error occurred during analysis: '' @ py ''timed out'' \<noteq>
     py ''Failed to get a response after 3 attempts. API Error: '' @ py ''timed out''"
proof -
  let ?client = "scripted [Inl (Exception (py ''timed out'')), Inl (Exception (py ''timed out'')),
                Inl (Exception (py ''timed out''))]"
  let ?req = "build_request (py ''resume'') (py ''job'')"
  have "try_body table_lib ?client ?req 0 = Inl (Exception (py ''timed out''))"
    by (simp add: try_body_def scripted_def)
  then have "attempts table_lib ?client ?req 0 =
      (None, [GenerateContent ?req, StError (unexpected_error_msg (py ''timed out''))])"
    by (intro attempts_exception) (simp_all add: max_retries_def)
  then show ?thesis
    by (simp add: analyze_resume_ats_def unexpected_error_msg_def py_def)
qed

text \<open>
  C4. Let the attempts before attempt \<open>k\<close> (below \<open>max_retries\<close>) fail with an
  \<^verbatim>\<open>APIError\<close>, and let attempt \<open>k\<close> return a text that is not JSON, or that decodes to
  a document the schema rejects. Then \<open>analyze_resume_ats\<close> returns \<^verbatim>\<open>None\<close>, and after
  the request of attempt \<open>k\<close> the only thing it does is show the error of the failed
  parse: no sleep and no request follow, however many attempts remain.
\<close>

theorem schema_violation:
  assumes "k < max_retries"
    and "\<forall>i<k. \<exists>d. client (build_request resume_text jd_text) i = Inl (APIError d)"
    and "client (build_request resume_text jd_text) k = Inr raw"
    and "json_loads L raw = None \<or>
         (\<exists>j. json_loads L raw = Some j \<and> validate_ATSResult L j = None)"
  shows "analyze_resume_ats L client resume_text jd_text =
     (None,
      backoff (build_request resume_text jd_text) k @
        [GenerateContent (build_request resume_text jd_text),
         StError (parse_error_msg (error_text L raw))])"
proof -
  let ?req = "build_request resume_text jd_text"
  have "model_validate_json L raw = Inl (ValueError (error_text L raw))"
    using assms(4) by (auto simp: model_validate_json_def)
  then have "try_body L client ?req k = Inl (ValueError (error_text L raw))"
    using assms(3) by (simp add: try_body_return)
  then have "attempts L client ?req k =
      (None, [GenerateContent ?req, StError (parse_error_msg (error_text L raw))])"
    using assms(1) by (intro attempts_value_error)
  moreover have "attempts L client ?req 0 = emit (backoff ?req k) (attempts L client ?req k)"
    using assms(1,2) by (intro attempts_after_failures) (auto dest: try_body_raise)
  ultimately show ?thesis
    by (simp add: analyze_resume_ats_def)
qed

theorem schema_violation_witness:
  "analyze_resume_ats table_lib (scripted [Inr (py ''{score: 87''), Inr report_87])
     (py ''resume'') (py ''job'') =
     (None,
      [GenerateContent (build_request (py ''resume'') (py ''job'')),
       StError (parse_error_msg (py ''Invalid JSON''))])"
proof -
  have "py ''{score: 87'' \<noteq> report_87" "py ''{score: 87'' \<noteq> report_150"
    by (simp_all add: report_87_def report_150_def py_def)
  then have "json_loads table_lib (py ''{score: 87'') = None"
    by (simp add: table_lib_def)
  then show ?thesis
    using schema_violation [where k = 0 and L = table_lib and raw = "py ''{score: 87''"
        and client = "scripted [Inr (py ''{score: 87''), Inr report_87]"
        and resume_text = "py ''resume''" and jd_text = "py ''job''"]
    by (simp add: max_retries_def scripted_def backoff_def table_lib_def)
qed

text \<open>
  C5. For every library, every client (whatever it raises or returns at each call) and all
  inputs, \<open>analyze_resume_ats\<close> gives one of two outcomes. Either a report, which is the
  validated text of one of the attempts, and no error was shown; or \<^verbatim>\<open>None\<close>, and the
  last thing it did was to show exactly one error, of the exhausted attempts, of the
  failed parse or of the unexpected exception. In both it sent at most \<open>max_retries\<close>
  requests. The function is total: its recursion over the attempts terminates.
\<close>

theorem one_outcome:
  "(\<exists>report evs k raw.
      analyze_resume_ats L client resume_text jd_text = (Some report, evs) \<and>
      k < max_retries \<and> client (build_request resume_text jd_text) k = Inr raw \<and>
      model_validate_json L raw = Inr report \<and>
      (\<forall>m. StError m \<notin> set evs) \<and> calls evs \<le> max_retries) \<or>
   (\<exists>pre m e.
      analyze_resume_ats L client resume_text jd_text = (None, pre @ [StError m]) \<and>
      (\<forall>m'. StError m' \<notin> set pre) \<and>
      (m = api_error_msg e \<or> m = parse_error_msg e \<or> m = unexpected_error_msg e) \<and>
      calls pre \<le> max_retries)"
proof -
  let ?req = "build_request resume_text jd_text"
  have bound: "calls (snd (attempts L client ?req 0)) \<le> max_retries"
    using attempts_calls [of 0 L client ?req] by simp
  have "0 < max_retries" by (simp add: max_retries_def)
  from attempts_outcome [OF this, of L client ?req] consider
    (ok) report evs k raw where
      "attempts L client ?req 0 = (Some report, evs)" "k < max_retries"
      "client ?req k = Inr raw" "model_validate_json L raw = Inr report"
      "\<forall>m. StError m \<notin> set evs"
  | (err) pre m e where
      "attempts L client ?req 0 = (None, pre @ [StError m])"
      "\<forall>m'. StError m' \<notin> set pre"
      "m = api_error_msg e \<or> m = parse_error_msg e \<or> m = unexpected_error_msg e"
    by blast
  then show ?thesis
  proof cases
    case ok
    with bound have "calls evs \<le> max_retries" by simp
    with ok show ?thesis
      unfolding analyze_resume_ats_def by blast
  next
    case err
    with bound have "calls pre \<le> max_retries" by (simp add: calls_append)
    with err show ?thesis
      unfolding analyze_resume_ats_def by blast
  qed
qed

text \<open>
  C6. For all texts of the resume and of the job description, empty or not, the user
  message of the request is: a fixed opening, the label \<^verbatim>\<open>RESUME TEXT:\<close>, a line break and
  the indentation, the resume as it is, a fixed separator, the label
  \<^verbatim>\<open>JOB DESCRIPTION:\<close>, a line break and the indentation, the job description as it is,
  and a fixed ending. So each text follows its label and the resume comes first.
\<close>

theorem user_message_layout:
  "\<exists>opening separator ending. \<forall>resume_text jd_text.
     user_text (build_request resume_text jd_text) =
       opening @ py ''RESUME TEXT:'' @ nl @ py ''    '' @ resume_text @
       separator @ py ''JOB DESCRIPTION:'' @ nl @ py ''    '' @ jd_text @ ending"
proof -
  have "\<forall>resume_text jd_text.
     user_text (build_request resume_text jd_text) =
       (nl @ py ''    Analyze the following RESUME against the JOB DESCRIPTION.'' @ nl @ nl @
          py ''    ---'' @ nl @ py ''    '') @
       py ''RESUME TEXT:'' @ nl @ py ''    '' @ resume_text @
       (nl @ py ''    ---'' @ nl @ py ''    '') @
       py ''JOB DESCRIPTION:'' @ nl @ py ''    '' @ jd_text @ (nl @ py ''    '')"
    by (simp add: build_request_def user_query_def py_def)
  then show ?thesis by blast
qed

text \<open>
  C7. The validation accepts a document whose score is 150: the report it gives has the
  score 150, outside the range from 0 to 100 that the description of the field states.
\<close>

theorem score_150_accepted:
  "model_validate_json table_lib report_150 =
     Inr \<lparr>score = 150, summary = py ''S'',
          feedback = \<lparr>keywordMatch = py ''a'', contentImpact = py ''b'',
                      formattingAndStructure = py ''c''\<rparr>\<rparr> \<and>
   validate_ATSResult L (conforming 150 su a b c) =
     Some \<lparr>score = 150, summary = su,
           feedback = \<lparr>keywordMatch = a, contentImpact = b, formattingAndStructure = c\<rparr>\<rparr>"
proof -
  have "report_87 \<noteq> report_150"
    by (simp add: report_87_def report_150_def py_def)
  then show ?thesis
    by (simp add: model_validate_json_def table_lib_def validate_conforming)
qed

text \<open>
  C8. When every page of the PDF yields only whitespace or no text, the extraction returns
  \<^verbatim>\<open>None\<close> after the message that no readable text was found (and a warning for each page
  without text). A run of the page with this file uploaded sends no request, whatever the
  environment and the other widgets: with a client, it is the extraction's messages and,
  if the button was pressed, the message that the analysis could not proceed.
\<close>

theorem empty_extraction:
  assumes "\<forall>t\<in>set texts. list_all isspace t"
    and "file_uploader w = Some (Pages (map PageText texts))"
  shows "extract_text_from_pdf (Pages (map PageText texts)) =
           (None, replicate (length (filter (\<lambda>t. t = []) texts)) (StWarning page_warning) @
                    [StError no_text_msg]) \<and>
         calls (main_app L env w) = 0 \<and>
         (\<forall>client. get_gemini_client env = (Some client, []) \<longrightarrow>
            main_app L env w =
              replicate (length (filter (\<lambda>t. t = []) texts)) (StWarning page_warning) @
                [StError no_text_msg] @
                (if button w then [StError cannot_proceed_msg] else []))"
proof -
  have ex: "extract_text_from_pdf (Pages (map PageText texts)) =
           (None, replicate (length (filter (\<lambda>t. t = []) texts)) (StWarning page_warning) @
                    [StError no_text_msg])"
    using assms(1) by (simp add: extract_texts)
  obtain c evs0 where g: "get_gemini_client env = (c, evs0)"
    by (cases "get_gemini_client env")
  then have evs0: "calls evs0 = 0"
    using calls_get_gemini_client [of env] by simp
  have "calls (main_app L env w) = 0"
    using g evs0 ex assms(2)
    by (cases c) (simp_all add: main_app_def calls_append calls_warnings)
  moreover have "main_app L env w =
      replicate (length (filter (\<lambda>t. t = []) texts)) (StWarning page_warning) @
        [StError no_text_msg] @ (if button w then [StError cannot_proceed_msg] else [])"
    if "get_gemini_client env = (Some client, [])" for client
    using that ex assms(2) by (simp add: main_app_def)
  ultimately show ?thesis
    using ex by blast
qed

theorem empty_extraction_witness:
  "main_app table_lib
     \<lparr>GEMINI_API_KEY = Some (py ''key''), new_client = Inr (scripted [Inr report_87])\<rparr>
     \<lparr>file_uploader = Some (Pages (map PageText [py ''  '', [], nl])),
      text_area = py ''job'', button = True\<rparr> =
     [StWarning page_warning, StError no_text_msg, StError cannot_proceed_msg]"
proof -
  have "\<forall>t\<in>set [py ''  '', [], nl]. list_all isspace t"
    by (simp add: py_def nl_def isspace_def)
  moreover have "get_gemini_client
      \<lparr>GEMINI_API_KEY = Some (py ''key''), new_client = Inr (scripted [Inr report_87])\<rparr> =
      (Some (scripted [Inr report_87]), [])"
    by (simp add: get_gemini_client_def py_def)
  ultimately show ?thesis
    using empty_extraction [where texts = "[py ''  '', [], nl]" and L = table_lib
        and env = "\<lparr>GEMINI_API_KEY = Some (py ''key''),
                     new_client = Inr (scripted [Inr report_87])\<rparr>"
        and w = "\<lparr>file_uploader = Some (Pages (map PageText [py ''  '', [], nl])),
                   text_area = py ''job'', button = True\<rparr>"]
    by (simp add: py_def nl_def)
qed

text \<open>
  C9. When the environment has no API key (the variable is unset or empty), the client is
  not constructed: \<open>get_gemini_client\<close> returns \<^verbatim>\<open>None\<close>, and every run of the page,
  whatever the widgets hold, ends there. All it shows is the error that the key was not
  found and the hint to set the variable; it sends no request.
\<close>

theorem missing_credential:
  assumes "GEMINI_API_KEY env = None \<or> GEMINI_API_KEY env = Some []"
  shows "get_gemini_client env =
           (None, [StError ([0x274C] @ py '' Gemini API Key not found!''), StInfo key_hint_msg]) \<and>
         main_app L env w =
           [StError ([0x274C] @ py '' Gemini API Key not found!''), StInfo key_hint_msg] \<and>
         calls (main_app L env w) = 0"
  using assms by (auto simp: get_gemini_client_def main_app_def key_not_found_msg_def)

theorem missing_credential_witness:
  "main_app table_lib
     \<lparr>GEMINI_API_KEY = None, new_client = Inr (scripted [Inr report_87])\<rparr>
     \<lparr>file_uploader = Some (Pages [PageText (py ''resume'')]),
      text_area = py ''job'', button = True\<rparr> =
     [StError ([0x274C] @ py '' Gemini API Key not found!''), StInfo key_hint_msg]"
  using missing_credential [where L = table_lib
      and env = "\<lparr>GEMINI_API_KEY = None, new_client = Inr (scripted [Inr report_87])\<rparr>"
      and w = "\<lparr>file_uploader = Some (Pages [PageText (py ''resume'')]),
                 text_area = py ''job'', button = True\<rparr>"]
  by simp

text \<open>
  C10, as the code has it. When no page raises and at least one page yields a text with a
  character that is not whitespace, the extraction returns the texts of the pages that
  are not empty, in page order, each followed by a line break; it leaves out the pages
  without text and shows one warning for each of them.
\<close>

theorem partial_extraction:
  assumes "\<exists>t\<in>set texts. \<not> list_all isspace t"
  shows "extract_text_from_pdf (Pages (map PageText texts)) =
           (Some (concat (map (\<lambda>t. t @ nl) (filter (\<lambda>t. t \<noteq> []) texts))),
            replicate (length (filter (\<lambda>t. t = []) texts)) (StWarning page_warning))"
  using assms by (simp add: extract_texts)

theorem partial_extraction_witness:
  "extract_text_from_pdf (Pages (map PageText [py ''page 1'', [], py '' '', py ''page 4''])) =
     (Some (py ''page 1'' @ nl @ py '' '' @ nl @ py ''page 4'' @ nl),
      [StWarning page_warning])"
proof -
  have "\<exists>t\<in>set [py ''page 1'', [], py '' '', py ''page 4'']. \<not> list_all isspace t"
    by (simp add: py_def isspace_def)
  then show ?thesis
    using partial_extraction [where texts = "[py ''page 1'', [], py '' '', py ''page 4'']"]
    by (simp add: py_def)
qed

text \<open>
  C10 as it is written fails at two inputs. For a page with the text \<^verbatim>\<open>a\<close> followed by
  a page without text, the extraction succeeds, but not silently: it shows a warning for
  the second page. For the same first page followed by a page whose extraction raises, the
  extraction fails although a page yielded text.
\<close>

theorem partial_extraction_counterexample:
  "\<not> list_all isspace (py ''a'') \<and>
   extract_text_from_pdf (Pages [PageText (py ''a''), PageText []]) =
     (Some (py ''a'' @ nl), [StWarning page_warning]) \<and>
   snd (extract_text_from_pdf (Pages [PageText (py ''a''), PageText []])) \<noteq> [] \<and>
   extract_text_from_pdf (Pages [PageText (py ''a''), PageRaises (Exception (py ''bad stream''))]) =
     (None, [StError (pdf_error_msg (Exception (py ''bad stream'')))])"
  by (simp add: extract_text_from_pdf_def strip_def py_def nl_def isspace_def)

end
